theory Spec2Isabelle
  imports Main "HOL-Library.Word" "HOL-Library.Char_ord"
begin

unbundle bit_operations_syntax

section \<open>Bytes and strings\<close>

text \<open>
  A Go \<^verbatim>\<open>string\<close> is a sequence of bytes and is modelled as a \<^typ>\<open>string\<close> (a list of
  8-bit characters); a \<^verbatim>\<open>[]byte\<close> is a list of 8-bit words. The conversions
  \<^verbatim>\<open>[]byte(s)\<close> and \<^verbatim>\<open>string(b)\<close> keep every byte.
\<close>

type_synonym byte = "8 word"
type_synonym bytes = "byte list"
type_synonym uint64 = "64 word"

definition byte_of_char :: "char \<Rightarrow> byte" where
  "byte_of_char c = of_char c"

definition char_of_byte :: "byte \<Rightarrow> char" where
  "char_of_byte b = char_of (unat b)"

definition bytes_of_string :: "string \<Rightarrow> bytes" where
  "bytes_of_string s = map byte_of_char s"

definition string_of_bytes :: "bytes \<Rightarrow> string" where
  "string_of_bytes b = map char_of_byte b"

text \<open>\<^verbatim>\<open>bytes.HasPrefix\<close>, \<^verbatim>\<open>strings.HasPrefix\<close> and the two \<^verbatim>\<open>TrimPrefix\<close> functions of the
  Go standard library, which are written alike for both types.\<close>

definition HasPrefix :: "'a list \<Rightarrow> 'a list \<Rightarrow> bool" where
  "HasPrefix s pre = (length s \<ge> length pre \<and> take (length pre) s = pre)"

definition TrimPrefix :: "'a list \<Rightarrow> 'a list \<Rightarrow> 'a list" where
  "TrimPrefix s pre = (if HasPrefix s pre then drop (length pre) s else s)"

text \<open>\<^verbatim>\<open>bytes.Compare\<close>: the three-way lexicographic comparison of two byte slices, bytes
  read as unsigned; a proper prefix is smaller.\<close>

fun Compare :: "bytes \<Rightarrow> bytes \<Rightarrow> int" where
  "Compare [] [] = 0"
| "Compare [] (y # ys) = -1"
| "Compare (x # xs) [] = 1"
| "Compare (x # xs) (y # ys) =
     (if x < y then -1 else if y < x then 1 else Compare xs ys)"

section \<open>Hexadecimal text (Go's encoding/hex)\<close>

definition hextable :: string where
  "hextable = ''0123456789abcdef''"

text \<open>\<^verbatim>\<open>hex.EncodeToString\<close>: two lower-case digits for every byte, high nibble first. This
  is also what the format verb \<^verbatim>\<open>%x\<close> prints for a byte slice.\<close>

fun EncodeToString :: "bytes \<Rightarrow> string" where
  "EncodeToString [] = []"
| "EncodeToString (v # src) =
     hextable ! unat (drop_bit 4 v) # hextable ! unat (v AND 0x0f) # EncodeToString src"

definition fromHexChar :: "char \<Rightarrow> byte option" where
  "fromHexChar c =
     (if CHR ''0'' \<le> c \<and> c \<le> CHR ''9'' then Some (byte_of_char c - byte_of_char CHR ''0'')
      else if CHR ''a'' \<le> c \<and> c \<le> CHR ''f'' then Some (byte_of_char c - byte_of_char CHR ''a'' + 10)
      else if CHR ''A'' \<le> c \<and> c \<le> CHR ''F'' then Some (byte_of_char c - byte_of_char CHR ''A'' + 10)
      else None)"

text \<open>\<^verbatim>\<open>hex.DecodeString\<close> returns the bytes decoded before the first invalid character (or
  before a trailing odd character) together with an error; \<^verbatim>\<open>common.Hex2Bytes\<close> drops the
  error and keeps the bytes, which is all that is modelled here.\<close>

fun Hex2Bytes :: "string \<Rightarrow> bytes" where
  "Hex2Bytes (p # q # src) =
     (case fromHexChar p of
        None \<Rightarrow> []
      | Some a \<Rightarrow>
          (case fromHexChar q of
             None \<Rightarrow> []
           | Some b \<Rightarrow> (push_bit 4 a OR b) # Hex2Bytes src))"
| "Hex2Bytes [p] = []"
| "Hex2Bytes [] = []"

section \<open>Keccak-256 (golang.org/x/crypto/sha3, legacy padding)\<close>

text \<open>The state is 25 lanes of 64 bits, lane \<open>(x, y)\<close> at index \<open>x + 5 * y\<close>.\<close>

type_synonym lane = "64 word"

definition keccak_rc :: "lane list" where
  "keccak_rc =
    [0x0000000000000001, 0x0000000000008082, 0x800000000000808A, 0x8000000080008000,
     0x000000000000808B, 0x0000000080000001, 0x8000000080008081, 0x8000000000008009,
     0x000000000000008A, 0x0000000000000088, 0x0000000080008009, 0x000000008000000A,
     0x000000008000808B, 0x800000000000008B, 0x8000000000008089, 0x8000000000008003,
     0x8000000000008002, 0x8000000000000080, 0x000000000000800A, 0x800000008000000A,
     0x8000000080008081, 0x8000000000008080, 0x0000000080000001, 0x8000000080008008]"

definition keccak_rot :: "nat list" where
  "keccak_rot =
    [0, 1, 62, 28, 27,  36, 44, 6, 55, 20,  3, 10, 43, 25, 39,
     41, 45, 15, 21, 8,  18, 2, 61, 56, 14]"

definition theta :: "lane list \<Rightarrow> lane list" where
  "theta a =
     (let c = map (\<lambda>x. a ! x XOR a ! (x + 5) XOR a ! (x + 10) XOR a ! (x + 15) XOR a ! (x + 20))
                [0..<5];
          d = map (\<lambda>x. c ! ((x + 4) mod 5) XOR word_rotl 1 (c ! ((x + 1) mod 5))) [0..<5]
      in map (\<lambda>i. a ! i XOR d ! (i mod 5)) [0..<25])"

definition rho_pi :: "lane list \<Rightarrow> lane list" where
  "rho_pi a =
     map (\<lambda>i. let s = (i mod 5 + 3 * (i div 5)) mod 5 + 5 * (i mod 5)
               in word_rotl (keccak_rot ! s) (a ! s)) [0..<25]"

definition chi :: "lane list \<Rightarrow> lane list" where
  "chi b =
     map (\<lambda>i. let y = 5 * (i div 5)
               in b ! i XOR (NOT (b ! (y + (i + 1) mod 5)) AND b ! (y + (i + 2) mod 5))) [0..<25]"

definition iota :: "lane \<Rightarrow> lane list \<Rightarrow> lane list" where
  "iota rc a = map (\<lambda>i. if i = 0 then a ! 0 XOR rc else a ! i) [0..<25]"

definition keccak_round :: "lane list \<Rightarrow> lane \<Rightarrow> lane list" where
  "keccak_round a rc = iota rc (chi (rho_pi (theta a)))"

definition keccakF1600 :: "lane list \<Rightarrow> lane list" where
  "keccakF1600 a = foldl keccak_round a keccak_rc"

definition lane_of_bytes :: "bytes \<Rightarrow> lane" where
  "lane_of_bytes bs = foldr (\<lambda>b acc. ucast b OR push_bit 8 acc) bs 0"

definition bytes_of_lane :: "lane \<Rightarrow> bytes" where
  "bytes_of_lane w = map (\<lambda>k. ucast (drop_bit (8 * k) w)) [0..<8]"

text \<open>The rate of Keccak-256 is 136 bytes. The legacy padding appends the byte 0x01, fills
  the block with zeros and sets the top bit of its last byte.\<close>

definition keccak_pad :: "bytes \<Rightarrow> bytes" where
  "keccak_pad m =
     (let n = 136 - length m mod 136;
          p = (1 :: byte) # replicate (n - 1) 0
      in m @ butlast p @ [last p OR 0x80])"

definition keccak_absorb :: "lane list \<Rightarrow> bytes \<Rightarrow> lane list" where
  "keccak_absorb a block =
     keccakF1600
       (map (\<lambda>i. if i < 17 then a ! i XOR lane_of_bytes (take 8 (drop (8 * i) block)) else a ! i)
          [0..<25])"

definition Keccak256 :: "bytes \<Rightarrow> bytes" where
  "Keccak256 m =
     (let p = keccak_pad m;
          blocks = map (\<lambda>k. take 136 (drop (136 * k) p)) [0..<length p div 136]
      in take 32 (concat (map bytes_of_lane (foldl keccak_absorb (replicate 25 0) blocks))))"


section \<open>Ethereum addresses (go-ethereum, package common)\<close>

text \<open>An \<^verbatim>\<open>Address\<close> is a \<^verbatim>\<open>[20]byte\<close>: a list of bytes of length \<open>AddressLength\<close>.\<close>

type_synonym Address = bytes

definition AddressLength :: nat where
  "AddressLength = 20"

definition has0xPrefix :: "string \<Rightarrow> bool" where
  "has0xPrefix str =
     (length str \<ge> 2 \<and> str ! 0 = CHR ''0'' \<and> (str ! 1 = CHR ''x'' \<or> str ! 1 = CHR ''X''))"

definition isHexCharacter :: "char \<Rightarrow> bool" where
  "isHexCharacter c =
     ((CHR ''0'' \<le> c \<and> c \<le> CHR ''9'') \<or> (CHR ''a'' \<le> c \<and> c \<le> CHR ''f'')
      \<or> (CHR ''A'' \<le> c \<and> c \<le> CHR ''F''))"

definition isHex :: "string \<Rightarrow> bool" where
  "isHex str = (if length str mod 2 \<noteq> 0 then False else list_all isHexCharacter str)"

definition IsHexAddress :: "string \<Rightarrow> bool" where
  "IsHexAddress s =
     (let s' = (if has0xPrefix s then drop 2 s else s)
      in length s' = 2 * AddressLength \<and> isHex s')"

definition FromHex :: "string \<Rightarrow> bytes" where
  "FromHex s =
     (let s1 = (if has0xPrefix s then drop 2 s else s);
          s2 = (if length s1 mod 2 = 1 then CHR ''0'' # s1 else s1)
      in Hex2Bytes s2)"

text \<open>\<^verbatim>\<open>SetBytes\<close> keeps the last 20 bytes of a longer slice and pads a shorter one with
  zero bytes on the left.\<close>

definition BytesToAddress :: "bytes \<Rightarrow> Address" where
  "BytesToAddress b =
     (let b' = (if length b > AddressLength then drop (length b - AddressLength) b else b)
      in replicate (AddressLength - length b') 0 @ b')"

definition HexToAddress :: "string \<Rightarrow> Address" where
  "HexToAddress s = BytesToAddress (FromHex s)"

text \<open>The digits of an address string: \<^verbatim>\<open>IsHexAddress\<close> and \<^verbatim>\<open>FromHex\<close> both drop a
  leading \<^verbatim>\<open>0x\<close> or \<^verbatim>\<open>0X\<close> before they look at the string.\<close>

definition trim0x :: "string \<Rightarrow> string" where
  "trim0x s = (if has0xPrefix s then drop 2 s else s)"

text \<open>\<^verbatim>\<open>Address.Hex\<close>: the EIP-55 form. The lower-case digits are hashed; a letter becomes
  upper case where the matching nibble of the hash is above 7.\<close>

definition checksumHex :: "Address \<Rightarrow> bytes" where
  "checksumHex a =
     (let buf = bytes_of_string (EncodeToString a);
          hash = Keccak256 buf
      in bytes_of_string ''0x'' @
         map (\<lambda>i. let hashByte = (if i mod 2 = 0 then drop_bit 4 (hash ! (i div 2))
                                   else hash ! (i div 2) AND 0xf)
                   in if buf ! i > byte_of_char CHR ''9'' \<and> hashByte > 7
                      then buf ! i - 32 else buf ! i)
           [0..<length buf])"

definition Hex :: "Address \<Rightarrow> string" where
  "Hex a = string_of_bytes (checksumHex a)"

section \<open>Errors and panics\<close>

text \<open>One constructor for every place where the code, or a library function it calls,
  makes an error value; \<open>Error\<close> is the text Go's \<^verbatim>\<open>err.Error()\<close> returns for it.\<close>

datatype error =
    EmptyAddress
  | NotValidAddress string
  | BytePrefixMismatch bytes bytes
  | BadAddressBytes bytes
  | StringPrefixMismatch string string
  | InvalidContractAddress
  | InvalidAmount
  | ErrInvalidCoins
  | InvalidDenom string
  | NegativeCoinAmount int
  | Wrap error string

datatype panic = PanicErr error | PanicMsg string

fun digits :: "nat \<Rightarrow> string" where
  "digits n = (if n < 10 then [hextable ! n] else digits (n div 10) @ [hextable ! (n mod 10)])"

declare digits.simps [simp del]

definition FormatInt :: "int \<Rightarrow> string" where
  "FormatInt i = (if i < 0 then CHR ''-'' # digits (nat (- i)) else digits (nat i))"

fun Error :: "error \<Rightarrow> string" where
  "Error EmptyAddress = ''empty Ethereum address''"
| "Error (NotValidAddress address) = address @ '' is not a valid Ethereum address''"
| "Error (BytePrefixMismatch p fullPrefix) =
     ''denom '' @ [CHR 0x27] @ EncodeToString p @ [CHR 0x27] @
     '' byte prefix not equal to expected '' @ [CHR 0x27] @ EncodeToString fullPrefix @ [CHR 0x27]"
| "Error (BadAddressBytes addressBytes) =
     ''failed to validate Ethereum address bytes: '' @ EncodeToString addressBytes"
| "Error (StringPrefixMismatch denom fullPrefix) =
     ''denom '' @ [CHR 0x27] @ denom @ [CHR 0x27] @
     '' string prefix not equal to expected '' @ [CHR 0x27] @ fullPrefix @ [CHR 0x27]"
| "Error InvalidContractAddress = ''invalid contract address''"
| "Error InvalidAmount = ''invalid amount''"
| "Error ErrInvalidCoins = ''invalid coins''"
| "Error (InvalidDenom denom) = ''invalid denom: '' @ denom"
| "Error (NegativeCoinAmount amount) = ''negative coin amount: '' @ FormatInt amount"
| "Error (Wrap err description) = description @ '': '' @ Error err"

section \<open>Integers and coins (cosmos-sdk, package types)\<close>

text \<open>An \<^verbatim>\<open>sdk.Int\<close> wraps a \<^verbatim>\<open>big.Int\<close> and is read as an \<^typ>\<open>int\<close>. Its arithmetic
  panics when the result needs more than \<^verbatim>\<open>maxBitLen = 255\<close> bits, that is when its
  absolute value reaches \<open>2 ^ 255\<close>; \<^verbatim>\<open>Uint64\<close> panics outside the unsigned 64-bit range.\<close>

definition NewIntFromUint64 :: "uint64 \<Rightarrow> int" where
  "NewIntFromUint64 n = uint n"

definition Int_Add :: "int \<Rightarrow> int \<Rightarrow> panic + int" where
  "Int_Add i i2 =
     (let res = i + i2
      in if \<bar>res\<bar> \<ge> 2 ^ 255 then Inl (PanicMsg ''Int overflow'') else Inr res)"

definition IsUint64 :: "int \<Rightarrow> bool" where
  "IsUint64 i = (0 \<le> i \<and> i < 2 ^ 64)"

definition Uint64 :: "int \<Rightarrow> panic + uint64" where
  "Uint64 i =
     (if \<not> IsUint64 i then Inl (PanicMsg ''Uint64() out of bounds'') else Inr (word_of_int i))"

datatype Coin = Coin (Denom: string) (CoinAmount: int)

text \<open>A denomination is valid when the whole of it matches the regular expression
  \<^verbatim>\<open>[a-zA-Z][a-zA-Z0-9/:._-]{2,127}\<close>.\<close>

definition isLetter :: "char \<Rightarrow> bool" where
  "isLetter c = ((CHR ''a'' \<le> c \<and> c \<le> CHR ''z'') \<or> (CHR ''A'' \<le> c \<and> c \<le> CHR ''Z''))"

definition isDenomChar :: "char \<Rightarrow> bool" where
  "isDenomChar c = (isLetter c \<or> (CHR ''0'' \<le> c \<and> c \<le> CHR ''9'') \<or> c \<in> set ''/:._-'')"

definition ValidateDenom :: "string \<Rightarrow> error option" where
  "ValidateDenom denom =
     (case denom of
        [] \<Rightarrow> Some (InvalidDenom denom)
      | c # cs \<Rightarrow>
          if isLetter c \<and> 2 \<le> length cs \<and> length cs \<le> 127 \<and> list_all isDenomChar cs
          then None else Some (InvalidDenom denom))"

definition Validate :: "Coin \<Rightarrow> error option" where
  "Validate coin =
     (case ValidateDenom (Denom coin) of
        Some err \<Rightarrow> Some err
      | None \<Rightarrow>
          if CoinAmount coin < 0 then Some (NegativeCoinAmount (CoinAmount coin)) else None)"

text \<open>\<^verbatim>\<open>sdk.NewCoin\<close> validates the coin it builds and panics with the validation error.\<close>

definition NewCoin :: "string \<Rightarrow> int \<Rightarrow> panic + Coin" where
  "NewCoin denom amount =
     (let coin = Coin denom amount
      in case Validate coin of Some err \<Rightarrow> Inl (PanicErr err) | None \<Rightarrow> Inr coin)"

definition IsValid :: "Coin \<Rightarrow> bool" where
  "IsValid coin = (Validate coin = None)"

definition IsPositive :: "Coin \<Rightarrow> bool" where
  "IsPositive coin = (CoinAmount coin > 0)"

definition Coin_String :: "Coin \<Rightarrow> string" where
  "Coin_String coin = FormatInt (CoinAmount coin) @ Denom coin"

section \<open>x/peggy/types/ethereum.go\<close>

text \<open>Modelled from the spec: \<^verbatim>\<open>ModuleName\<close> is declared in another file of package
  \<^verbatim>\<open>types\<close>; the prefix is ``a fixed module identifier constant'', here the name of the
  module, \<^verbatim>\<open>peggy\<close>.\<close>

definition ModuleName :: string where
  "ModuleName = ''peggy''"

definition PeggyDenomPrefix :: string where
  "PeggyDenomPrefix = ModuleName"

definition PeggyDenomSeparator :: string where
  "PeggyDenomSeparator = []"

definition ETHContractAddressLen :: nat where
  "ETHContractAddressLen = 20"

definition PeggyDenomLen :: nat where
  "PeggyDenomLen = length PeggyDenomPrefix + length PeggyDenomSeparator + ETHContractAddressLen"

definition EthAddrLessThan :: "string \<Rightarrow> string \<Rightarrow> bool" where
  "EthAddrLessThan e o' = (Compare (bytes_of_string e) (bytes_of_string o') = -1)"

definition ValidateEthAddress :: "string \<Rightarrow> error option" where
  "ValidateEthAddress address =
     (if address = [] then Some EmptyAddress
      else if \<not> IsHexAddress address then Some (NotValidAddress address)
      else None)"

record ERC20Token =
  Amount :: int
  Contract :: string

definition NewERC20Token :: "uint64 \<Rightarrow> Address \<Rightarrow> ERC20Token" where
  "NewERC20Token amount contract = \<lparr>Amount = NewIntFromUint64 amount, Contract = Hex contract\<rparr>"

definition NewSDKIntERC20Token :: "int \<Rightarrow> Address \<Rightarrow> ERC20Token" where
  "NewSDKIntERC20Token amount contract = \<lparr>Amount = amount, Contract = Hex contract\<rparr>"

definition PeggyDenomString :: "Address \<Rightarrow> string" where
  "PeggyDenomString tokenContract = PeggyDenomPrefix @ PeggyDenomSeparator @ Hex tokenContract"

definition PeggyCoin :: "ERC20Token \<Rightarrow> panic + Coin" where
  "PeggyCoin e = NewCoin (PeggyDenomString (HexToAddress (Contract e))) (Amount e)"

type_synonym PeggyDenom = bytes

definition TokenContract :: "PeggyDenom \<Rightarrow> error + Address" where
  "TokenContract p =
     (let fullPrefix = bytes_of_string (PeggyDenomPrefix @ PeggyDenomSeparator)
      in if \<not> HasPrefix p fullPrefix then Inl (BytePrefixMismatch p fullPrefix)
         else let addressBytes = TrimPrefix p fullPrefix
              in if length addressBytes \<noteq> ETHContractAddressLen
                 then Inl (BadAddressBytes addressBytes)
                 else Inr (BytesToAddress addressBytes))"

definition String :: "PeggyDenom \<Rightarrow> string" where
  "String p =
     (case TokenContract p of
        Inl err \<Rightarrow> EncodeToString p @ ''(error: '' @ Error err @ '')''
      | Inr contractAddress \<Rightarrow> PeggyDenomString contractAddress)"

definition NewPeggyDenom :: "Address \<Rightarrow> PeggyDenom" where
  "NewPeggyDenom tokenContract =
     (let buf = [];
          buf = buf @ bytes_of_string (PeggyDenomPrefix @ PeggyDenomSeparator);
          buf = buf @ tokenContract
      in buf)"

definition NewPeggyDenomFromString :: "string \<Rightarrow> error + PeggyDenom" where
  "NewPeggyDenomFromString denom =
     (let fullPrefix = PeggyDenomPrefix @ PeggyDenomSeparator
      in if \<not> HasPrefix denom fullPrefix then Inl (StringPrefixMismatch denom fullPrefix)
         else let addressHex = TrimPrefix denom fullPrefix
              in case ValidateEthAddress addressHex of
                   Some err \<Rightarrow> Inl err
                 | None \<Rightarrow> Inr (NewPeggyDenom (HexToAddress addressHex)))"

text \<open>\<^verbatim>\<open>ValidateBasic\<close> calls \<^verbatim>\<open>e.PeggyCoin()\<close> anew for every test and message; the
  receiver does not change in between, so every call returns, or panics with, the same.\<close>

definition ValidateBasic :: "ERC20Token \<Rightarrow> panic + error option" where
  "ValidateBasic e =
     (case ValidateEthAddress (Contract e) of
        Some err \<Rightarrow> Inr (Some (Wrap err ''ethereum address''))
      | None \<Rightarrow>
          (case PeggyCoin e of
             Inl p \<Rightarrow> Inl p
           | Inr coin \<Rightarrow>
               if \<not> IsValid coin then Inr (Some (Wrap ErrInvalidCoins (Coin_String coin)))
               else if \<not> IsPositive coin then Inr (Some (Wrap ErrInvalidCoins (Coin_String coin)))
               else Inr None))"

definition Add :: "ERC20Token \<Rightarrow> ERC20Token \<Rightarrow> panic + (error + ERC20Token)" where
  "Add e o' =
     (if Contract e \<noteq> Contract o' then Inr (Inl InvalidContractAddress)
      else case Int_Add (Amount e) (Amount o') of
             Inl p \<Rightarrow> Inl p
           | Inr sm \<Rightarrow>
               if \<not> IsUint64 sm then Inr (Inl InvalidAmount)
               else case Uint64 sm of
                      Inl p \<Rightarrow> Inl p
                    | Inr n \<Rightarrow> Inr (Inr (NewERC20Token n (HexToAddress (Contract e)))))"

section \<open>Prefixes, addresses and characters\<close>

lemma HasPrefix_append: "HasPrefix (pre @ s) pre"
  by (simp add: HasPrefix_def)

lemma TrimPrefix_append: "TrimPrefix (pre @ s) pre = s"
  by (simp add: TrimPrefix_def HasPrefix_def)

lemma HasPrefix_short: "length s < length pre \<Longrightarrow> \<not> HasPrefix s pre"
  by (simp add: HasPrefix_def)

lemma BytesToAddress_id: "length b = AddressLength \<Longrightarrow> BytesToAddress b = b"
  by (simp add: BytesToAddress_def)

lemma length_BytesToAddress: "length (BytesToAddress b) = AddressLength"
  by (simp add: BytesToAddress_def Let_def)

lemma char_le_iff: "(c :: char) \<le> d \<longleftrightarrow> (of_char c :: nat) \<le> of_char d"
  by (simp add: less_eq_char_def)

section \<open>Bytes, characters and nibbles\<close>

lemma unat_byte_of_char: "unat (byte_of_char c) = of_char c"
proof -
  have "(of_char c :: byte) = of_nat (of_char c)" by (simp add: of_nat_of_char)
  then have "unat (of_char c :: byte) = (of_char c :: nat) mod 256"
    by (simp add: unat_of_nat)
  then show ?thesis by (simp add: byte_of_char_def)
qed

lemma char_of_byte_of_char: "char_of_byte (byte_of_char c) = c"
  by (simp add: char_of_byte_def unat_byte_of_char)


lemma fifteen: "(0x0f :: byte) = mask 4"
  by (simp add: mask_eq_exp_minus_1)

lemma nibble_join: "push_bit 4 (drop_bit 4 v) OR (v AND 0x0f) = (v :: byte)"
  unfolding fifteen by (rule bit_word_eqI) (auto simp: bit_simps)

lemma nibble_lo_less: "(v AND 0x0f :: byte) < 16"
proof -
  have "v AND mask 4 \<le> (mask 4 :: byte)" by (rule word_and_le1)
  then show ?thesis
    unfolding fifteen [symmetric] by (simp add: word_le_nat_alt word_less_nat_alt)
qed

lemma nibble_hi_less: "drop_bit 4 (v :: byte) < 16"
proof -
  have "unat v < 256" using unsigned_less [of v] by simp
  then have "unat v div 16 < 16" by simp
  then show ?thesis by (simp add: word_less_nat_alt unat_drop_bit_eq drop_bit_eq_div unat_div)
qed

lemma nibble_mask: "(x :: byte) < 16 \<Longrightarrow> x AND mask 4 = x"
  by (rule less_mask_eq) simp

lemma nibble_split_hi:
  assumes "(x :: byte) < 16" "(y :: byte) < 16"
  shows "drop_bit 4 (push_bit 4 x OR y) = x"
proof -
  have "drop_bit 4 (push_bit 4 (x AND mask 4) OR (y AND mask 4)) = x AND mask 4"
    by (rule bit_word_eqI) (auto simp: bit_simps)
  then show ?thesis using assms by (simp add: nibble_mask)
qed

lemma nibble_split_lo:
  assumes "(x :: byte) < 16" "(y :: byte) < 16"
  shows "(push_bit 4 x OR y) AND 0x0f = y"
proof -
  have "(push_bit 4 (x AND mask 4) OR (y AND mask 4)) AND mask 4 = y AND mask 4"
    by (rule bit_word_eqI) (auto simp: bit_simps)
  then show ?thesis using assms by (simp add: nibble_mask fifteen)
qed

lemma nat_less_16_cases:
  "(k :: nat) < 16 \<Longrightarrow> k \<in> {0, 1, 2, 3, 4, 5, 6, 7, 8, 9, 10, 11, 12, 13, 14, 15}"
  by (simp only: insert_iff empty_iff) arith

lemma fromHexChar_hextable:
  assumes "k < 16"
  shows "fromHexChar (hextable ! k) = Some (of_nat k)"
  using nat_less_16_cases [OF assms]
  by (auto simp: hextable_def fromHexChar_def byte_of_char_def less_eq_char_def)

lemma word_less_16_unat: "(x :: byte) < 16 \<Longrightarrow> unat x < 16"
  by (simp add: word_less_nat_alt)

lemma fromHexChar_hextable_word:
  assumes "(x :: byte) < 16"
  shows "fromHexChar (hextable ! unat x) = Some x"
  using fromHexChar_hextable [OF word_less_16_unat [OF assms]] by simp

lemma isHexCharacter_iff: "isHexCharacter c \<longleftrightarrow> fromHexChar c \<noteq> None"
  by (auto simp: isHexCharacter_def fromHexChar_def)

lemma fromHexChar_less:
  assumes "fromHexChar c = Some x"
  shows "x < 16"
proof -
  let ?n = "of_char c :: nat"
  have n: "unat (byte_of_char c) = ?n" by (rule unat_byte_of_char)
  show ?thesis
    using assms n
    by (auto simp: fromHexChar_def less_eq_char_def byte_of_char_def word_less_nat_alt
        unat_sub_if' unat_word_ariths split: if_splits)
qed

section \<open>Hexadecimal text: encoding and decoding\<close>

lemma length_EncodeToString: "length (EncodeToString a) = 2 * length a"
  by (induction a) simp_all

lemma Hex2Bytes_EncodeToString: "Hex2Bytes (EncodeToString a) = a"
  by (induction a)
    (simp_all add: fromHexChar_hextable_word nibble_hi_less nibble_lo_less nibble_join)

lemma Hex2Bytes_cong:
  "map fromHexChar s = map fromHexChar t \<Longrightarrow> Hex2Bytes s = Hex2Bytes t"
proof (induction s arbitrary: t rule: Hex2Bytes.induct)
  case (1 p q src)
  then obtain p' q' src' where t: "t = p' # q' # src'"
    by (cases t; cases "tl t") auto
  with 1 show ?case by (auto split: option.splits)
next
  case (2 p)
  then obtain p' where "t = [p']" by (cases t) auto
  then show ?case by simp
next
  case 3
  then show ?case by simp
qed

lemma EncodeToString_digits:
  "c \<in> set (EncodeToString a) \<Longrightarrow> \<exists>x. x < 16 \<and> c = hextable ! unat (x :: byte)"
  by (induction a) (auto intro: nibble_hi_less nibble_lo_less)

lemma upper_chars:
  "list_all (\<lambda>c. byte_of_char c > byte_of_char CHR ''9'' \<longrightarrow>
      fromHexChar (char_of_byte (byte_of_char c - 32)) = fromHexChar c) hextable"
  by code_simp

lemma hextable_nth_mem: "(x :: byte) < 16 \<Longrightarrow> hextable ! unat x \<in> set hextable"
  by (rule nth_mem) (simp add: hextable_def word_less_nat_alt)

lemma upper_digit:
  assumes "(x :: byte) < 16" "byte_of_char (hextable ! unat x) > byte_of_char CHR ''9''"
  shows "fromHexChar (char_of_byte (byte_of_char (hextable ! unat x) - 32)) = Some x"
  using upper_chars hextable_nth_mem [OF assms(1)] assms(2) fromHexChar_hextable_word [OF assms(1)]
  unfolding list_all_iff by auto

section \<open>The EIP-55 form of an address\<close>

lemma string_of_bytes_of_string: "string_of_bytes (bytes_of_string s) = s"
  by (simp add: string_of_bytes_def bytes_of_string_def char_of_byte_of_char map_idI)

lemma Hex_unfold:
  "Hex a = ''0x'' @
     map (\<lambda>i. char_of_byte
            (if byte_of_char (EncodeToString a ! i) > byte_of_char CHR ''9'' \<and>
                (if i mod 2 = 0
                 then drop_bit 4 (Keccak256 (bytes_of_string (EncodeToString a)) ! (i div 2))
                 else Keccak256 (bytes_of_string (EncodeToString a)) ! (i div 2) AND 0xf) > 7
             then byte_of_char (EncodeToString a ! i) - 32
             else byte_of_char (EncodeToString a ! i)))
       [0..<2 * length a]"
proof -
  have "string_of_bytes (bytes_of_string ''0x'' @ bs) = ''0x'' @ map char_of_byte bs" for bs
    using string_of_bytes_of_string [of "''0x''"] by (simp add: string_of_bytes_def)
  then show ?thesis
    by (simp add: Hex_def checksumHex_def Let_def bytes_of_string_def length_EncodeToString
        split del: if_split cong: if_cong)
qed

lemma length_Hex: "length (Hex a) = 2 + 2 * length a"
  by (simp add: Hex_unfold)

lemma take2_Hex: "take 2 (Hex a) = ''0x''"
  by (simp add: Hex_unfold)

lemma has0xPrefix_Hex: "has0xPrefix (Hex a)"
  by (simp add: has0xPrefix_def Hex_unfold)

lemma Hex_digits: "map fromHexChar (drop 2 (Hex a)) = map fromHexChar (EncodeToString a)"
proof (rule nth_equalityI)
  show "length (map fromHexChar (drop 2 (Hex a))) = length (map fromHexChar (EncodeToString a))"
    by (simp add: length_Hex length_EncodeToString)
next
  fix i
  assume "i < length (map fromHexChar (drop 2 (Hex a)))"
  then have i: "i < 2 * length a" by (simp add: length_Hex)
  then have "EncodeToString a ! i \<in> set (EncodeToString a)"
    by (simp add: length_EncodeToString)
  then obtain x :: byte where x: "x < 16" "EncodeToString a ! i = hextable ! unat x"
    using EncodeToString_digits by blast
  have "fromHexChar (drop 2 (Hex a) ! i) = fromHexChar (EncodeToString a ! i)"
    using i x upper_digit [OF x(1)] fromHexChar_hextable_word [OF x(1)]
    by (simp add: Hex_unfold char_of_byte_of_char)
  then show "map fromHexChar (drop 2 (Hex a)) ! i = map fromHexChar (EncodeToString a) ! i"
    using i by (simp add: length_Hex length_EncodeToString)
qed

lemma Hex2Bytes_drop2_Hex: "Hex2Bytes (drop 2 (Hex a)) = a"
  using Hex2Bytes_cong [OF Hex_digits] by (simp add: Hex2Bytes_EncodeToString)

lemma FromHex_Hex: "FromHex (Hex a) = a"
  by (simp add: FromHex_def has0xPrefix_Hex Let_def length_Hex Hex2Bytes_drop2_Hex)

lemma HexToAddress_Hex: "length a = AddressLength \<Longrightarrow> HexToAddress (Hex a) = a"
  by (simp add: HexToAddress_def FromHex_Hex BytesToAddress_def)

lemma isHexCharacter_Hex_digits: "list_all isHexCharacter (drop 2 (Hex a))"
proof -
  have "\<forall>c \<in> set (EncodeToString a). fromHexChar c \<noteq> None"
    using EncodeToString_digits fromHexChar_hextable_word by fastforce
  then have "\<forall>r \<in> set (map fromHexChar (EncodeToString a)). r \<noteq> None" by auto
  then have "\<forall>r \<in> set (map fromHexChar (drop 2 (Hex a))). r \<noteq> None"
    by (simp only: Hex_digits)
  then show ?thesis by (auto simp: list_all_iff isHexCharacter_iff)
qed

lemma IsHexAddress_Hex: "length a = AddressLength \<Longrightarrow> IsHexAddress (Hex a)"
  by (simp add: IsHexAddress_def has0xPrefix_Hex length_Hex isHex_def
      isHexCharacter_Hex_digits AddressLength_def)

lemma ValidateEthAddress_Hex: "length a = AddressLength \<Longrightarrow> ValidateEthAddress (Hex a) = None"
  using length_Hex [of a] by (auto simp: ValidateEthAddress_def IsHexAddress_Hex)

section \<open>Valid address strings and peggy denominations\<close>

lemma Hex2Bytes_valid:
  "list_all isHexCharacter s \<Longrightarrow> even (length s) \<Longrightarrow>
   length (Hex2Bytes s) = length s div 2 \<and>
   map fromHexChar (EncodeToString (Hex2Bytes s)) = map fromHexChar s"
proof (induction s rule: Hex2Bytes.induct)
  case (1 p q src)
  from 1(2) obtain x y where xy: "fromHexChar p = Some x" "fromHexChar q = Some y"
    by (auto simp: isHexCharacter_iff)
  then have lt: "x < 16" "y < 16" by (auto dest: fromHexChar_less)
  from 1 xy have IH: "length (Hex2Bytes src) = length src div 2"
    "map fromHexChar (EncodeToString (Hex2Bytes src)) = map fromHexChar src"
    by auto
  have enc: "EncodeToString ((push_bit 4 x OR y) # bs) =
      hextable ! unat x # hextable ! unat y # EncodeToString bs" for bs
    by (simp only: EncodeToString.simps nibble_split_hi [OF lt] nibble_split_lo [OF lt])
  show ?case
    using xy lt IH 1(3)
    by (simp add: enc fromHexChar_hextable_word del: EncodeToString.simps)
next
  case (2 p)
  then show ?case by simp
next
  case 3
  then show ?case by simp
qed


lemma ValidateEthAddress_NoneD:
  assumes "ValidateEthAddress s = None"
  shows "length (trim0x s) = 40" "list_all isHexCharacter (trim0x s)"
  using assms
  by (auto simp: ValidateEthAddress_def IsHexAddress_def Let_def isHex_def trim0x_def
      AddressLength_def split: if_splits)

lemma HexToAddress_valid:
  assumes "ValidateEthAddress s = None"
  shows "HexToAddress s = Hex2Bytes (trim0x s)"
proof -
  note d = ValidateEthAddress_NoneD [OF assms]
  have "FromHex s = Hex2Bytes (trim0x s)"
    using d(1) by (simp add: FromHex_def Let_def trim0x_def)
  moreover have "length (Hex2Bytes (trim0x s)) = 20"
    using Hex2Bytes_valid [OF d(2)] d(1) by simp
  ultimately show ?thesis
    by (simp add: HexToAddress_def BytesToAddress_def AddressLength_def)
qed

lemma Hex_HexToAddress_digits:
  assumes "ValidateEthAddress s = None"
  shows "map fromHexChar (drop 2 (Hex (HexToAddress s))) = map fromHexChar (trim0x s)"
  using Hex2Bytes_valid [OF ValidateEthAddress_NoneD(2) [OF assms]]
    ValidateEthAddress_NoneD(1) [OF assms]
  by (simp add: HexToAddress_valid [OF assms] Hex_digits)

lemma length_HexToAddress: "length (HexToAddress s) = AddressLength"
  by (simp add: HexToAddress_def length_BytesToAddress)

lemma isHexCharacter_isDenomChar: "isHexCharacter c \<Longrightarrow> isDenomChar c"
  by (auto simp: isHexCharacter_def isDenomChar_def isLetter_def less_eq_char_def)

lemma Hex_split: "Hex a = ''0x'' @ drop 2 (Hex a)"
  using take2_Hex [of a] append_take_drop_id [of 2 "Hex a"] by simp

lemma ValidateDenom_PeggyDenomString:
  assumes "length a = AddressLength"
  shows "ValidateDenom (PeggyDenomString a) = None"
proof -
  have "list_all isDenomChar (drop 2 (Hex a))"
    using isHexCharacter_Hex_digits [of a] by (auto simp: list_all_iff isHexCharacter_isDenomChar)
  moreover have "length (drop 2 (Hex a)) = 40"
    using assms by (simp add: length_Hex AddressLength_def)
  moreover have "PeggyDenomString a = CHR ''p'' # ''eggy0x'' @ drop 2 (Hex a)"
    using Hex_split [of a]
    by (simp add: PeggyDenomString_def PeggyDenomPrefix_def ModuleName_def PeggyDenomSeparator_def)
  ultimately show ?thesis
    by (simp add: ValidateDenom_def isLetter_def isDenomChar_def less_eq_char_def)
qed

lemma PeggyCoin_eq:
  "PeggyCoin e =
     (if Amount e < 0 then Inl (PanicErr (NegativeCoinAmount (Amount e)))
      else Inr (Coin (PeggyDenomString (HexToAddress (Contract e))) (Amount e)))"
  by (simp add: PeggyCoin_def NewCoin_def Validate_def Let_def
      ValidateDenom_PeggyDenomString length_HexToAddress)

lemma NewPeggyDenomFromString_PeggyDenomString:
  assumes "length a = AddressLength"
  shows "NewPeggyDenomFromString (PeggyDenomString a) = Inr (NewPeggyDenom a)"
  using assms
  by (simp add: NewPeggyDenomFromString_def PeggyDenomString_def HasPrefix_append
      TrimPrefix_append PeggyDenomSeparator_def ValidateEthAddress_Hex HexToAddress_Hex)

section \<open>Decoding a denomination\<close>

text \<open>
  Claim C1. For every 20-byte contract address \<open>a\<close>, decoding the denomination that
  \<open>NewPeggyDenom\<close> builds from \<open>a\<close> succeeds and gives \<open>a\<close> back.
\<close>

theorem TokenContract_NewPeggyDenom:
  "length a = AddressLength \<Longrightarrow> TokenContract (NewPeggyDenom a) = Inr a"
  by (simp add: TokenContract_def NewPeggyDenom_def HasPrefix_append TrimPrefix_append
      ETHContractAddressLen_def AddressLength_def BytesToAddress_id)

theorem TokenContract_NewPeggyDenom_witness:
  "length (replicate 20 (7 :: byte)) = AddressLength \<and>
   TokenContract (NewPeggyDenom (replicate 20 7)) = Inr (replicate 20 7)"
  using TokenContract_NewPeggyDenom [of "replicate 20 7"] by (simp add: AddressLength_def)

text \<open>
  Claim C4. A byte string that does not begin with the bytes of the prefix and the
  separator, and so every byte string shorter than the two together, is refused with the
  prefix error; a byte string that begins with them and whose remainder is not 20 bytes
  long is refused with the address-bytes error, which carries the remainder.
\<close>

theorem TokenContract_rejects:
  "(\<not> HasPrefix d (bytes_of_string (PeggyDenomPrefix @ PeggyDenomSeparator)) \<longrightarrow>
      TokenContract d =
        Inl (BytePrefixMismatch d (bytes_of_string (PeggyDenomPrefix @ PeggyDenomSeparator)))) \<and>
   (length d < length PeggyDenomPrefix + length PeggyDenomSeparator \<longrightarrow>
      TokenContract d =
        Inl (BytePrefixMismatch d (bytes_of_string (PeggyDenomPrefix @ PeggyDenomSeparator)))) \<and>
   (HasPrefix d (bytes_of_string (PeggyDenomPrefix @ PeggyDenomSeparator)) \<and>
    length d \<noteq> length PeggyDenomPrefix + length PeggyDenomSeparator + 20 \<longrightarrow>
      TokenContract d =
        Inl (BadAddressBytes (drop (length PeggyDenomPrefix + length PeggyDenomSeparator) d)))"
proof (intro conjI impI)
  let ?fp = "bytes_of_string (PeggyDenomPrefix @ PeggyDenomSeparator)"
  have len: "length ?fp = length PeggyDenomPrefix + length PeggyDenomSeparator"
    by (simp add: bytes_of_string_def)
  {
    assume "\<not> HasPrefix d ?fp"
    then show "TokenContract d = Inl (BytePrefixMismatch d ?fp)"
      by (simp add: TokenContract_def)
  next
    assume "length d < length PeggyDenomPrefix + length PeggyDenomSeparator"
    then have "\<not> HasPrefix d ?fp"
      using len by (intro HasPrefix_short) simp
    then show "TokenContract d = Inl (BytePrefixMismatch d ?fp)"
      by (simp add: TokenContract_def)
  next
    assume h: "HasPrefix d ?fp \<and>
      length d \<noteq> length PeggyDenomPrefix + length PeggyDenomSeparator + 20"
    then have "length (TrimPrefix d ?fp) \<noteq> ETHContractAddressLen"
      using len by (auto simp: TrimPrefix_def HasPrefix_def ETHContractAddressLen_def)
    with h len show "TokenContract d =
        Inl (BadAddressBytes (drop (length PeggyDenomPrefix + length PeggyDenomSeparator) d))"
      by (simp add: TokenContract_def TrimPrefix_def)
  }
qed

theorem TokenContract_rejects_witness:
  "\<not> HasPrefix [1, 2, 3] (bytes_of_string (PeggyDenomPrefix @ PeggyDenomSeparator)) \<and>
   length [1, 2, 3 :: byte] < length PeggyDenomPrefix + length PeggyDenomSeparator \<and>
   TokenContract [1, 2, 3] =
     Inl (BytePrefixMismatch [1, 2, 3] (bytes_of_string (PeggyDenomPrefix @ PeggyDenomSeparator))) \<and>
   HasPrefix (bytes_of_string ''peggy'' @ replicate 19 0)
     (bytes_of_string (PeggyDenomPrefix @ PeggyDenomSeparator)) \<and>
   TokenContract (bytes_of_string ''peggy'' @ replicate 19 0) =
     Inl (BadAddressBytes (replicate 19 0)) \<and>
   HasPrefix (bytes_of_string ''peggy'' @ replicate 21 0)
     (bytes_of_string (PeggyDenomPrefix @ PeggyDenomSeparator)) \<and>
   TokenContract (bytes_of_string ''peggy'' @ replicate 21 0) =
     Inl (BadAddressBytes (replicate 21 0))"
  using TokenContract_rejects [of "[1, 2, 3]"]
    TokenContract_rejects [of "bytes_of_string ''peggy'' @ replicate 19 0"]
    TokenContract_rejects [of "bytes_of_string ''peggy'' @ replicate 21 0"]
  by (simp add: HasPrefix_def bytes_of_string_def PeggyDenomPrefix_def
      ModuleName_def PeggyDenomSeparator_def)

section \<open>Validating an address string\<close>

text \<open>
  Claim C6. The empty string is refused with the empty-address error, the string
  \<^verbatim>\<open>not-an-address\<close> with the not-a-valid-address error, and every string made of
  \<^verbatim>\<open>0x\<close> and 40 hexadecimal characters is accepted.
\<close>

theorem ValidateEthAddress_cases:
  "ValidateEthAddress [] = Some EmptyAddress \<and>
   ValidateEthAddress ''not-an-address'' = Some (NotValidAddress ''not-an-address'') \<and>
   (length h = 40 \<and> list_all isHexCharacter h \<longrightarrow> ValidateEthAddress (''0x'' @ h) = None)"
  by (simp add: ValidateEthAddress_def IsHexAddress_def has0xPrefix_def AddressLength_def
      isHex_def)

theorem ValidateEthAddress_cases_witness:
  "length ''5aAeb6053F3E94C9b9A09f33669435E7Ef1BeAed'' = 40 \<and>
   list_all isHexCharacter ''5aAeb6053F3E94C9b9A09f33669435E7Ef1BeAed'' \<and>
   ValidateEthAddress ''0x5aAeb6053F3E94C9b9A09f33669435E7Ef1BeAed'' = None"
  using ValidateEthAddress_cases [of "''5aAeb6053F3E94C9b9A09f33669435E7Ef1BeAed''"]
  by (simp add: isHexCharacter_def char_le_iff)

section \<open>The coin of a token\<close>

text \<open>The lossy parse of a string that holds no hexadecimal digit is the zero address.\<close>

lemma HexToAddress_garbage: "HexToAddress ''garbage'' = replicate 20 0"
  by (simp add: HexToAddress_def FromHex_def has0xPrefix_def Let_def fromHexChar_def
      less_eq_char_def BytesToAddress_def AddressLength_def)

text \<open>
  Claim C10. \<^verbatim>\<open>PeggyCoin\<close> never rejects a token for its contract field. For every token of
  non-negative amount it returns the coin of that amount whose denomination is the peggy
  denomination of \<^verbatim>\<open>common.HexToAddress\<close> of the stored string, whatever the string:
  the parse always gives 20 bytes, the denomination is accepted by the coin grammar, and
  it decodes to the parsed address.
\<close>

theorem PeggyCoin_lossy_contract:
  "0 \<le> Amount e \<Longrightarrow>
   PeggyCoin e = Inr (Coin (PeggyDenomString (HexToAddress (Contract e))) (Amount e)) \<and>
   length (HexToAddress (Contract e)) = AddressLength \<and>
   ValidateDenom (PeggyDenomString (HexToAddress (Contract e))) = None \<and>
   NewPeggyDenomFromString (PeggyDenomString (HexToAddress (Contract e))) =
     Inr (NewPeggyDenom (HexToAddress (Contract e))) \<and>
   TokenContract (NewPeggyDenom (HexToAddress (Contract e))) = Inr (HexToAddress (Contract e))"
  by (simp add: PeggyCoin_eq length_HexToAddress ValidateDenom_PeggyDenomString
      NewPeggyDenomFromString_PeggyDenomString TokenContract_def NewPeggyDenom_def
      HasPrefix_append TrimPrefix_append ETHContractAddressLen_def BytesToAddress_id
      AddressLength_def [symmetric])

theorem PeggyCoin_lossy_contract_witness:
  "(0 :: int) \<le> 5 \<and>
   ValidateEthAddress ''garbage'' = Some (NotValidAddress ''garbage'') \<and>
   PeggyCoin \<lparr>Amount = 5, Contract = ''garbage''\<rparr> =
     Inr (Coin (PeggyDenomString (replicate 20 0)) 5)"
  using PeggyCoin_lossy_contract [of "\<lparr>Amount = 5, Contract = ''garbage''\<rparr>"]
  by (simp add: HexToAddress_garbage ValidateEthAddress_def IsHexAddress_def has0xPrefix_def
      AddressLength_def)

section \<open>Stateless validation of a token\<close>

text \<open>\<^verbatim>\<open>ValidateBasic\<close> by cases on the address check and on the sign of the amount.\<close>

lemma ValidateBasic_eq:
  "ValidateBasic e =
     (case ValidateEthAddress (Contract e) of
        Some err \<Rightarrow> Inr (Some (Wrap err ''ethereum address''))
      | None \<Rightarrow>
          if Amount e < 0 then Inl (PanicErr (NegativeCoinAmount (Amount e)))
          else if Amount e = 0
            then Inr (Some (Wrap ErrInvalidCoins
                   (Coin_String (Coin (PeggyDenomString (HexToAddress (Contract e))) 0))))
          else Inr None)"
  by (auto simp: ValidateBasic_def PeggyCoin_eq IsValid_def IsPositive_def Validate_def
      ValidateDenom_PeggyDenomString length_HexToAddress split: option.splits)

lemma ValidateEthAddress_sample:
  "ValidateEthAddress ''0x5aAeb6053F3E94C9b9A09f33669435E7Ef1BeAed'' = None"
  by (simp add: ValidateEthAddress_def IsHexAddress_def has0xPrefix_def AddressLength_def
      isHex_def isHexCharacter_def less_eq_char_def)

text \<open>
  Claim C7. A token whose contract passes \<^verbatim>\<open>ValidateEthAddress\<close> and whose amount is zero
  is refused with the invalid-coins error; a token whose contract fails
  \<^verbatim>\<open>ValidateEthAddress\<close> is refused with that error, wrapped as an address error; and
  \<^verbatim>\<open>ValidateBasic\<close> returns \<^verbatim>\<open>nil\<close> only when the address is valid and the coin of the
  token is valid and strictly positive.
\<close>

theorem ValidateBasic_gate:
  "(ValidateEthAddress (Contract e) = None \<and> Amount e = 0 \<longrightarrow>
      ValidateBasic e =
        Inr (Some (Wrap ErrInvalidCoins
          (Coin_String (Coin (PeggyDenomString (HexToAddress (Contract e))) 0))))) \<and>
   (ValidateEthAddress (Contract e) = Some err \<longrightarrow>
      ValidateBasic e = Inr (Some (Wrap err ''ethereum address''))) \<and>
   (ValidateBasic e = Inr None \<longrightarrow>
      ValidateEthAddress (Contract e) = None \<and>
      (\<exists>coin. PeggyCoin e = Inr coin \<and> IsValid coin \<and> IsPositive coin) \<and> 0 < Amount e)"
  by (auto simp: ValidateBasic_eq PeggyCoin_eq IsValid_def IsPositive_def Validate_def
      ValidateDenom_PeggyDenomString length_HexToAddress split: option.splits if_splits)

theorem ValidateBasic_gate_witness:
  "ValidateEthAddress (Contract \<lparr>Amount = 0, Contract = ''0x5aAeb6053F3E94C9b9A09f33669435E7Ef1BeAed''\<rparr>) = None \<and>
   Amount \<lparr>Amount = 0, Contract = ''0x5aAeb6053F3E94C9b9A09f33669435E7Ef1BeAed''\<rparr> = 0 \<and>
   ValidateBasic \<lparr>Amount = 0, Contract = ''0x5aAeb6053F3E94C9b9A09f33669435E7Ef1BeAed''\<rparr> =
     Inr (Some (Wrap ErrInvalidCoins (Coin_String (Coin (PeggyDenomString
       (HexToAddress ''0x5aAeb6053F3E94C9b9A09f33669435E7Ef1BeAed'')) 0)))) \<and>
   ValidateEthAddress (Contract \<lparr>Amount = 3, Contract = ''garbage''\<rparr>) =
     Some (NotValidAddress ''garbage'') \<and>
   ValidateBasic \<lparr>Amount = 3, Contract = ''garbage''\<rparr> =
     Inr (Some (Wrap (NotValidAddress ''garbage'') ''ethereum address'')) \<and>
   ValidateBasic \<lparr>Amount = 3, Contract = ''0x5aAeb6053F3E94C9b9A09f33669435E7Ef1BeAed''\<rparr> = Inr None \<and>
   (0 :: int) < Amount \<lparr>Amount = 3, Contract = ''0x5aAeb6053F3E94C9b9A09f33669435E7Ef1BeAed''\<rparr>"
proof -
  have g: "ValidateEthAddress ''garbage'' = Some (NotValidAddress ''garbage'')"
    by (simp add: ValidateEthAddress_def IsHexAddress_def has0xPrefix_def AddressLength_def)
  have ok: "ValidateBasic \<lparr>Amount = 3, Contract = ''0x5aAeb6053F3E94C9b9A09f33669435E7Ef1BeAed''\<rparr>
      = Inr None"
    by (simp add: ValidateBasic_eq ValidateEthAddress_sample)
  show ?thesis
    using ValidateBasic_gate [of "\<lparr>Amount = 0,
        Contract = ''0x5aAeb6053F3E94C9b9A09f33669435E7Ef1BeAed''\<rparr>" "NotValidAddress ''garbage''"]
      ValidateBasic_gate [of "\<lparr>Amount = 3, Contract = ''garbage''\<rparr>" "NotValidAddress ''garbage''"]
      ValidateBasic_gate [of "\<lparr>Amount = 3,
        Contract = ''0x5aAeb6053F3E94C9b9A09f33669435E7Ef1BeAed''\<rparr>" "NotValidAddress ''garbage''"]
      ok
    by (simp add: ValidateEthAddress_sample g)
qed

section \<open>Decoding a denomination string\<close>

text \<open>
  Claim C5. For every string \<open>s\<close> that \<^verbatim>\<open>ValidateEthAddress\<close> accepts, decoding the
  denomination string made of the prefix, the separator and \<open>s\<close> succeeds and returns the
  byte form built from the parsed address, not from the text: the prefix followed by the
  20 bytes of the address. Rendering that denomination gives the prefix followed by the
  EIP-55 text of the address: \<^verbatim>\<open>0x\<close> and 40 characters that are the digits of \<open>s\<close>, the same
  values in the same order, in the canonical case, which parsing and rendering again
  leave as they are.
\<close>

theorem NewPeggyDenomFromString_canonical:
  "ValidateEthAddress s = None \<Longrightarrow>
   NewPeggyDenomFromString (PeggyDenomPrefix @ PeggyDenomSeparator @ s) =
     Inr (NewPeggyDenom (HexToAddress s)) \<and>
   NewPeggyDenom (HexToAddress s) =
     bytes_of_string (PeggyDenomPrefix @ PeggyDenomSeparator) @ HexToAddress s \<and>
   length (HexToAddress s) = AddressLength \<and>
   String (NewPeggyDenom (HexToAddress s)) =
     PeggyDenomPrefix @ PeggyDenomSeparator @ Hex (HexToAddress s) \<and>
   take 2 (Hex (HexToAddress s)) = ''0x'' \<and>
   length (Hex (HexToAddress s)) = 42 \<and>
   map fromHexChar (drop 2 (Hex (HexToAddress s))) = map fromHexChar (trim0x s) \<and>
   Hex (HexToAddress (Hex (HexToAddress s))) = Hex (HexToAddress s)"
  by (simp add: NewPeggyDenomFromString_def Let_def HasPrefix_append TrimPrefix_append
      NewPeggyDenom_def String_def TokenContract_def ETHContractAddressLen_def
      length_HexToAddress [unfolded AddressLength_def] AddressLength_def BytesToAddress_id
      PeggyDenomString_def PeggyDenomSeparator_def take2_Hex length_Hex
      Hex_HexToAddress_digits HexToAddress_Hex)

theorem NewPeggyDenomFromString_canonical_witness:
  "ValidateEthAddress ''0x5AAEB6053F3E94C9B9A09F33669435E7EF1BEAED'' = None \<and>
   NewPeggyDenomFromString (''peggy'' @ ''0x5AAEB6053F3E94C9B9A09F33669435E7EF1BEAED'') =
     Inr (bytes_of_string ''peggy'' @
       [0x5a, 0xae, 0xb6, 0x05, 0x3f, 0x3e, 0x94, 0xc9, 0xb9, 0xa0,
        0x9f, 0x33, 0x66, 0x94, 0x35, 0xe7, 0xef, 0x1b, 0xea, 0xed])"
proof -
  have v: "ValidateEthAddress ''0x5AAEB6053F3E94C9B9A09F33669435E7EF1BEAED'' = None"
    by (simp add: ValidateEthAddress_def IsHexAddress_def has0xPrefix_def AddressLength_def
        isHex_def isHexCharacter_def less_eq_char_def)
  have h: "HexToAddress ''0x5AAEB6053F3E94C9B9A09F33669435E7EF1BEAED'' =
      [0x5a, 0xae, 0xb6, 0x05, 0x3f, 0x3e, 0x94, 0xc9, 0xb9, 0xa0,
       0x9f, 0x33, 0x66, 0x94, 0x35, 0xe7, 0xef, 0x1b, 0xea, 0xed]"
    by (simp add: HexToAddress_def FromHex_def has0xPrefix_def Let_def fromHexChar_def
        less_eq_char_def BytesToAddress_def AddressLength_def byte_of_char_def)
  show ?thesis
    using NewPeggyDenomFromString_canonical [of "''0x5AAEB6053F3E94C9B9A09F33669435E7EF1BEAED''"]
    by (simp add: v h PeggyDenomPrefix_def ModuleName_def PeggyDenomSeparator_def)
qed

section \<open>The order of address strings\<close>

text \<open>\<^verbatim>\<open>bytes.Compare\<close> returns \<open>-1\<close>, \<open>0\<close> or \<open>1\<close>; it is \<open>0\<close> on equal slices only, changes
  sign when its arguments are exchanged, and is \<open>-1\<close> exactly on the pairs of the
  lexicographic order of the bytes.\<close>

lemma Compare_range: "Compare a b = -1 \<or> Compare a b = 0 \<or> Compare a b = 1"
  by (induction a b rule: Compare.induct) simp_all

lemma Compare_swap: "Compare b a = - Compare a b"
  by (induction a b rule: Compare.induct) auto

lemma Compare_eq_0: "Compare a b = 0 \<longleftrightarrow> a = b"
  by (induction a b rule: Compare.induct) auto

lemma Compare_lexord: "Compare a b = -1 \<longleftrightarrow> (a, b) \<in> lexord {(x, y). x < y}"
  by (induction a b rule: Compare.induct) auto

lemma Compare_trans: "Compare a b = -1 \<Longrightarrow> Compare b c = -1 \<Longrightarrow> Compare a c = -1"
  unfolding Compare_lexord
  by (rule lexord_trans) (auto simp: trans_def)

lemma inj_bytes_of_string: "bytes_of_string a = bytes_of_string b \<longleftrightarrow> a = b"
proof
  assume "bytes_of_string a = bytes_of_string b"
  then have "string_of_bytes (bytes_of_string a) = string_of_bytes (bytes_of_string b)"
    by simp
  then show "a = b"
    by (simp add: string_of_bytes_of_string)
qed simp

text \<open>
  Claim C8. \<^verbatim>\<open>EthAddrLessThan\<close> is the strict lexicographic order of the bytes of its
  arguments: it holds exactly when \<^verbatim>\<open>bytes.Compare\<close> is negative, and exactly when the
  comparison in the other direction is positive; it is irreflexive, asymmetric and
  transitive, and of two different strings one is less than the other.
\<close>

theorem EthAddrLessThan_strict_total_order:
  "(EthAddrLessThan a b \<longleftrightarrow> (bytes_of_string a, bytes_of_string b) \<in> lexord {(x, y). x < y}) \<and>
   (EthAddrLessThan a b \<longleftrightarrow> Compare (bytes_of_string a) (bytes_of_string b) < 0) \<and>
   (EthAddrLessThan a b \<longleftrightarrow> Compare (bytes_of_string b) (bytes_of_string a) > 0) \<and>
   \<not> EthAddrLessThan a a \<and>
   (EthAddrLessThan a b \<longrightarrow> \<not> EthAddrLessThan b a) \<and>
   (EthAddrLessThan a b \<and> EthAddrLessThan b c \<longrightarrow> EthAddrLessThan a c) \<and>
   (a \<noteq> b \<longrightarrow> EthAddrLessThan a b \<or> EthAddrLessThan b a)"
proof -
  let ?a = "bytes_of_string a" and ?b = "bytes_of_string b" and ?c = "bytes_of_string c"
  have r: "Compare ?a ?b = -1 \<or> Compare ?a ?b = 0 \<or> Compare ?a ?b = 1"
    by (rule Compare_range)
  have s: "Compare ?b ?a = - Compare ?a ?b"
    by (rule Compare_swap)
  have z: "Compare ?a ?b = 0 \<longleftrightarrow> a = b"
    by (simp add: Compare_eq_0 inj_bytes_of_string)
  have t: "Compare ?a ?b = -1 \<Longrightarrow> Compare ?b ?c = -1 \<Longrightarrow> Compare ?a ?c = -1"
    by (rule Compare_trans)
  have i: "Compare ?a ?a = 0"
    by (simp add: Compare_eq_0)
  show ?thesis
    unfolding EthAddrLessThan_def Compare_lexord [symmetric]
    using r s z t i by auto
qed

theorem EthAddrLessThan_strict_total_order_witness:
  "''0x5aAeb6053F3E94C9b9A09f33669435E7Ef1BeAed'' \<noteq> ''0xfB6916095ca1df60bB79Ce92cE3Ea74c37c5d359'' \<and>
   EthAddrLessThan ''0x5aAeb6053F3E94C9b9A09f33669435E7Ef1BeAed''
     ''0xfB6916095ca1df60bB79Ce92cE3Ea74c37c5d359'' \<and>
   \<not> EthAddrLessThan ''0xfB6916095ca1df60bB79Ce92cE3Ea74c37c5d359''
     ''0x5aAeb6053F3E94C9b9A09f33669435E7Ef1BeAed'' \<and>
   Compare (bytes_of_string ''0x5aAeb6053F3E94C9b9A09f33669435E7Ef1BeAed'')
     (bytes_of_string ''0xfB6916095ca1df60bB79Ce92cE3Ea74c37c5d359'') = -1 \<and>
   Compare (bytes_of_string ''0xfB6916095ca1df60bB79Ce92cE3Ea74c37c5d359'')
     (bytes_of_string ''0x5aAeb6053F3E94C9b9A09f33669435E7Ef1BeAed'') = 1 \<and>
   EthAddrLessThan ''0xfB6916095ca1df60bB79Ce92cE3Ea74c37c5d359''
     ''0xfB6916095ca1df60bB79Ce92cE3Ea74c37c5d35a'' \<and>
   EthAddrLessThan ''0x5aAeb6053F3E94C9b9A09f33669435E7Ef1BeAed''
     ''0xfB6916095ca1df60bB79Ce92cE3Ea74c37c5d35a''"
  using EthAddrLessThan_strict_total_order [of "''0x5aAeb6053F3E94C9b9A09f33669435E7Ef1BeAed''"
      "''0xfB6916095ca1df60bB79Ce92cE3Ea74c37c5d359''" "''0xfB6916095ca1df60bB79Ce92cE3Ea74c37c5d35a''"]
  by (simp add: EthAddrLessThan_def bytes_of_string_def byte_of_char_def)

section \<open>Adding two tokens\<close>

text \<open>\<^verbatim>\<open>Add\<close> by cases: the contracts, the bound of \<^verbatim>\<open>sdk.Int\<close>, the unsigned 64-bit range.\<close>

lemma uint_Uint64: "IsUint64 i \<Longrightarrow> uint (word_of_int i :: uint64) = i"
  by (simp add: IsUint64_def uint_word_of_int_eq take_bit_int_eq_self)

lemma Add_eq:
  "Add e o' =
     (if Contract e \<noteq> Contract o' then Inr (Inl InvalidContractAddress)
      else if 2 ^ 255 \<le> \<bar>Amount e + Amount o'\<bar> then Inl (PanicMsg ''Int overflow'')
      else if \<not> IsUint64 (Amount e + Amount o') then Inr (Inl InvalidAmount)
      else Inr (Inr \<lparr>Amount = Amount e + Amount o', Contract = Hex (HexToAddress (Contract e))\<rparr>))"
  by (simp add: Add_def Int_Add_def Uint64_def NewERC20Token_def NewIntFromUint64_def Let_def
      uint_Uint64 del: of_int_add)

lemma Hex_neq_garbage: "Hex a \<noteq> ''garbage''"
proof
  assume "Hex a = ''garbage''"
  then have "length (Hex a) = length ''garbage''"
    by (rule arg_cong)
  then have "2 + 2 * length a = 7"
    by (simp add: length_Hex)
  then show False
    by presburger
qed

text \<open>
  Claim C9. A token that \<^verbatim>\<open>Add\<close> returns has an amount that is not negative and is below
  \<open>2 ^ 64\<close>, and that amount is the sum of the amounts of the operands, whatever their
  signs and sizes; when the sum is outside the unsigned 64-bit range, \<^verbatim>\<open>Add\<close> returns no
  token.
\<close>

theorem Add_amount_in_range:
  "(Add e o' = Inr (Inr t) \<longrightarrow>
      0 \<le> Amount t \<and> Amount t < 2 ^ 64 \<and> Amount t = Amount e + Amount o') \<and>
   (\<not> IsUint64 (Amount e + Amount o') \<longrightarrow> Add e o' \<noteq> Inr (Inr t))"
  by (auto simp: Add_eq IsUint64_def split: if_splits)

theorem Add_amount_in_range_witness:
  "Add (NewSDKIntERC20Token (2 ^ 64 + 5) (replicate 20 0))
       (NewSDKIntERC20Token (- 10) (replicate 20 0)) =
     Inr (Inr (NewSDKIntERC20Token (2 ^ 64 - 5) (replicate 20 0))) \<and>
   (0 :: int) \<le> Amount (NewSDKIntERC20Token (2 ^ 64 - 5) (replicate 20 0)) \<and>
   Amount (NewSDKIntERC20Token (2 ^ 64 - 5) (replicate 20 0)) < 2 ^ 64 \<and>
   \<not> IsUint64 (5 + - 10) \<and>
   Add (NewSDKIntERC20Token 5 (replicate 20 0)) (NewSDKIntERC20Token (- 10) (replicate 20 0)) =
     Inr (Inl InvalidAmount) \<and>
   \<not> IsUint64 (2 ^ 64 - 1 + 1) \<and>
   Add (NewSDKIntERC20Token (2 ^ 64 - 1) (replicate 20 0)) (NewSDKIntERC20Token 1 (replicate 20 0)) =
     Inr (Inl InvalidAmount)"
  using Add_amount_in_range [of "NewSDKIntERC20Token (2 ^ 64 + 5) (replicate 20 0)"
      "NewSDKIntERC20Token (- 10) (replicate 20 0)"
      "NewSDKIntERC20Token (2 ^ 64 - 5) (replicate 20 0)"]
    Add_amount_in_range [of "NewSDKIntERC20Token 5 (replicate 20 0)"
      "NewSDKIntERC20Token (- 10) (replicate 20 0)"
      "NewSDKIntERC20Token (2 ^ 64 - 5) (replicate 20 0)"]
    Add_amount_in_range [of "NewSDKIntERC20Token (2 ^ 64 - 1) (replicate 20 0)"
      "NewSDKIntERC20Token 1 (replicate 20 0)"
      "NewSDKIntERC20Token (2 ^ 64 - 5) (replicate 20 0)"]
  by (simp add: Add_eq IsUint64_def NewSDKIntERC20Token_def HexToAddress_Hex AddressLength_def)

text \<open>
  Claim C2, as the code has it. When the contract strings differ, \<^verbatim>\<open>Add\<close> fails with the
  contract error. When they are equal and the sum of the amounts is in the unsigned 64-bit
  range, \<^verbatim>\<open>Add\<close> returns a new token of that sum whose contract is the EIP-55 text of
  the address parsed from the shared string, which is the shared string itself when that
  is the EIP-55 text of a 20-byte address. When they are equal and the sum is at least
  \<open>2 ^ 64\<close> and below \<open>2 ^ 255\<close>, \<^verbatim>\<open>Add\<close> fails with the amount error.
\<close>

theorem Add_cases:
  "(Contract e \<noteq> Contract o' \<longrightarrow> Add e o' = Inr (Inl InvalidContractAddress)) \<and>
   (Contract e = Contract o' \<and> IsUint64 (Amount e + Amount o') \<longrightarrow>
      Add e o' = Inr (Inr \<lparr>Amount = Amount e + Amount o',
        Contract = Hex (HexToAddress (Contract e))\<rparr>)) \<and>
   (length a = AddressLength \<and> Contract e = Hex a \<and> Contract o' = Hex a \<and>
    IsUint64 (Amount e + Amount o') \<longrightarrow>
      Add e o' = Inr (Inr \<lparr>Amount = Amount e + Amount o', Contract = Hex a\<rparr>)) \<and>
   (Contract e = Contract o' \<and> 2 ^ 64 \<le> Amount e + Amount o' \<and>
    Amount e + Amount o' < 2 ^ 255 \<longrightarrow>
      Add e o' = Inr (Inl InvalidAmount))"
  by (simp add: Add_eq IsUint64_def HexToAddress_Hex)

theorem Add_cases_witness:
  "Add \<lparr>Amount = 5, Contract = Hex (replicate 20 0)\<rparr> \<lparr>Amount = 7, Contract = Hex (replicate 20 0)\<rparr> =
     Inr (Inr \<lparr>Amount = 12, Contract = Hex (replicate 20 0)\<rparr>) \<and>
   Add \<lparr>Amount = 5, Contract = ''garbage''\<rparr> \<lparr>Amount = 7, Contract = ''garbage''\<rparr> =
     Inr (Inr \<lparr>Amount = 12, Contract = Hex (HexToAddress ''garbage'')\<rparr>) \<and>
   Add \<lparr>Amount = 5, Contract = ''garbage''\<rparr> \<lparr>Amount = 7, Contract = ''other''\<rparr> =
     Inr (Inl InvalidContractAddress) \<and>
   Add \<lparr>Amount = 2 ^ 64 - 1, Contract = ''garbage''\<rparr> \<lparr>Amount = 1, Contract = ''garbage''\<rparr> =
     Inr (Inl InvalidAmount)"
  using Add_cases [of "\<lparr>Amount = 5, Contract = Hex (replicate 20 0)\<rparr>"
      "\<lparr>Amount = 7, Contract = Hex (replicate 20 0)\<rparr>" "replicate 20 0"]
    Add_cases [of "\<lparr>Amount = 5, Contract = ''garbage''\<rparr>"
      "\<lparr>Amount = 7, Contract = ''garbage''\<rparr>" "replicate 20 0"]
    Add_cases [of "\<lparr>Amount = 5, Contract = ''garbage''\<rparr>"
      "\<lparr>Amount = 7, Contract = ''other''\<rparr>" "replicate 20 0"]
    Add_cases [of "\<lparr>Amount = 2 ^ 64 - 1, Contract = ''garbage''\<rparr>"
      "\<lparr>Amount = 1, Contract = ''garbage''\<rparr>" "replicate 20 0"]
  by (simp add: IsUint64_def AddressLength_def HexToAddress_Hex)

text \<open>
  Claim C2 as it is written fails on two inputs. Two amounts of \<open>2 ^ 254\<close> have a sum
  beyond the bound of \<^verbatim>\<open>sdk.Int\<close>, and \<^verbatim>\<open>Int.Add\<close> panics before the unsigned 64-bit
  test is reached: no error is returned. And two tokens that share the contract string
  \<^verbatim>\<open>garbage\<close> give a token whose contract is not that string.
\<close>

theorem Add_overflow_panics:
  "Add \<lparr>Amount = 2 ^ 254, Contract = ''garbage''\<rparr> \<lparr>Amount = 2 ^ 254, Contract = ''garbage''\<rparr> =
     Inl (PanicMsg ''Int overflow'') \<and>
   Add \<lparr>Amount = 5, Contract = ''garbage''\<rparr> \<lparr>Amount = 7, Contract = ''garbage''\<rparr> \<noteq>
     Inr (Inr \<lparr>Amount = 12, Contract = ''garbage''\<rparr>)"
  by (simp add: Add_eq IsUint64_def Hex_neq_garbage)

section \<open>Errors and panics of the operations\<close>

text \<open>
  Claim C3, as the code has it. \<^verbatim>\<open>String\<close> renders a denomination that does not decode
  as the placeholder made of its bytes in hexadecimal and of the text of the error.
  \<^verbatim>\<open>PeggyCoin\<close> returns a coin for every token of non-negative amount, whatever the
  contract string, and \<^verbatim>\<open>ValidateBasic\<close> then returns an error or \<^verbatim>\<open>nil\<close>; for a negative
  amount \<^verbatim>\<open>PeggyCoin\<close> panics with the negative-amount error of \<^verbatim>\<open>sdk.NewCoin\<close>. A
  contract string that \<^verbatim>\<open>ValidateEthAddress\<close> refuses makes \<^verbatim>\<open>ValidateBasic\<close> return that
  error, wrapped, whatever the amount. \<^verbatim>\<open>Add\<close> returns the contract error when the
  contracts differ, returns a token or an error when the sum of the amounts is within
  the bound of \<^verbatim>\<open>sdk.Int\<close>, and panics when the contracts are equal and the sum is not.
\<close>

theorem failure_policy:
  "(TokenContract p = Inl err \<longrightarrow>
      String p = EncodeToString p @ ''(error: '' @ Error err @ '')'') \<and>
   (0 \<le> Amount e \<longrightarrow>
      PeggyCoin e = Inr (Coin (PeggyDenomString (HexToAddress (Contract e))) (Amount e)) \<and>
      (\<exists>r. ValidateBasic e = Inr r)) \<and>
   (Amount e < 0 \<longrightarrow> PeggyCoin e = Inl (PanicErr (NegativeCoinAmount (Amount e)))) \<and>
   (ValidateEthAddress (Contract e) = Some err' \<longrightarrow>
      ValidateBasic e = Inr (Some (Wrap err' ''ethereum address''))) \<and>
   (Contract e \<noteq> Contract o' \<longrightarrow> Add e o' = Inr (Inl InvalidContractAddress)) \<and>
   (\<bar>Amount e + Amount o'\<bar> < 2 ^ 255 \<longrightarrow> (\<exists>r. Add e o' = Inr r)) \<and>
   (Contract e = Contract o' \<and> 2 ^ 255 \<le> \<bar>Amount e + Amount o'\<bar> \<longrightarrow>
      Add e o' = Inl (PanicMsg ''Int overflow''))"
  by (auto simp: String_def PeggyCoin_eq ValidateBasic_def Add_eq IsValid_def IsPositive_def
      Validate_def ValidateDenom_PeggyDenomString length_HexToAddress split: option.splits)

theorem failure_policy_witness:
  "TokenContract [1, 2, 3] =
     Inl (BytePrefixMismatch [1, 2, 3] (bytes_of_string (PeggyDenomPrefix @ PeggyDenomSeparator))) \<and>
   String [1, 2, 3] = ''010203(error: denom '' @ [CHR 0x27] @ ''010203'' @ [CHR 0x27] @
     '' byte prefix not equal to expected '' @ [CHR 0x27] @ ''7065676779'' @ [CHR 0x27] @ '')'' \<and>
   (0 :: int) \<le> 5 \<and>
   PeggyCoin \<lparr>Amount = 5, Contract = ''garbage''\<rparr> =
     Inr (Coin (PeggyDenomString (HexToAddress ''garbage'')) 5) \<and>
   ValidateBasic \<lparr>Amount = 5, Contract = ''garbage''\<rparr> =
     Inr (Some (Wrap (NotValidAddress ''garbage'') ''ethereum address'')) \<and>
   (- 1 :: int) < 0 \<and>
   PeggyCoin \<lparr>Amount = - 1, Contract = ''garbage''\<rparr> = Inl (PanicErr (NegativeCoinAmount (- 1))) \<and>
   ValidateBasic \<lparr>Amount = - 1, Contract = ''garbage''\<rparr> =
     Inr (Some (Wrap (NotValidAddress ''garbage'') ''ethereum address'')) \<and>
   Add \<lparr>Amount = 5, Contract = ''garbage''\<rparr> \<lparr>Amount = - 1, Contract = ''other''\<rparr> =
     Inr (Inl InvalidContractAddress) \<and>
   Add \<lparr>Amount = - 1, Contract = ''garbage''\<rparr> \<lparr>Amount = - 1, Contract = ''garbage''\<rparr> =
     Inr (Inl InvalidAmount) \<and>
   Add \<lparr>Amount = 2 ^ 254, Contract = ''garbage''\<rparr> \<lparr>Amount = 2 ^ 254, Contract = ''garbage''\<rparr> =
     Inl (PanicMsg ''Int overflow'')"
proof -
  have g: "ValidateEthAddress ''garbage'' = Some (NotValidAddress ''garbage'')"
    by (simp add: ValidateEthAddress_def IsHexAddress_def has0xPrefix_def AddressLength_def)
  have tc: "TokenContract [1, 2, 3] =
      Inl (BytePrefixMismatch [1, 2, 3] (bytes_of_string (PeggyDenomPrefix @ PeggyDenomSeparator)))"
    by (simp add: TokenContract_def HasPrefix_def bytes_of_string_def PeggyDenomPrefix_def
        ModuleName_def PeggyDenomSeparator_def)
  have enc: "EncodeToString (bytes_of_string (PeggyDenomPrefix @ PeggyDenomSeparator)) =
      ''7065676779''"
    by (simp add: bytes_of_string_def PeggyDenomPrefix_def ModuleName_def
        PeggyDenomSeparator_def byte_of_char_def hextable_def drop_bit_eq_div)
  have enc3: "EncodeToString [1, 2, 3] = ''010203''"
    by (simp add: hextable_def drop_bit_eq_div)
  have a1: "Add \<lparr>Amount = - 1, Contract = ''garbage''\<rparr> \<lparr>Amount = - 1, Contract = ''garbage''\<rparr> =
      Inr (Inl InvalidAmount)"
    by (simp add: Add_eq IsUint64_def)
  show ?thesis
    using failure_policy [of "[1, 2, 3]"
        "BytePrefixMismatch [1, 2, 3] (bytes_of_string (PeggyDenomPrefix @ PeggyDenomSeparator))"
        "\<lparr>Amount = 5, Contract = ''garbage''\<rparr>" "NotValidAddress ''garbage''"
        "\<lparr>Amount = - 1, Contract = ''other''\<rparr>"]
      failure_policy [of "[1, 2, 3]"
        "BytePrefixMismatch [1, 2, 3] (bytes_of_string (PeggyDenomPrefix @ PeggyDenomSeparator))"
        "\<lparr>Amount = - 1, Contract = ''garbage''\<rparr>" "NotValidAddress ''garbage''"
        "\<lparr>Amount = - 1, Contract = ''garbage''\<rparr>"]
      failure_policy [of "[1, 2, 3]"
        "BytePrefixMismatch [1, 2, 3] (bytes_of_string (PeggyDenomPrefix @ PeggyDenomSeparator))"
        "\<lparr>Amount = 2 ^ 254, Contract = ''garbage''\<rparr>" "NotValidAddress ''garbage''"
        "\<lparr>Amount = 2 ^ 254, Contract = ''garbage''\<rparr>"]
    by (simp add: g tc enc enc3 a1 hextable_def)
qed

text \<open>
  Claim C3 as it is written fails on a token of amount \<open>-1\<close>: \<^verbatim>\<open>sdk.NewCoin\<close> panics with
  the validation error of the coin, and so does \<^verbatim>\<open>PeggyCoin\<close>, which has no error to
  return.
\<close>

theorem PeggyCoin_negative_panics:
  "PeggyCoin \<lparr>Amount = - 1, Contract = ''0x5aAeb6053F3E94C9b9A09f33669435E7Ef1BeAed''\<rparr> =
     Inl (PanicErr (NegativeCoinAmount (- 1)))"
  by (simp add: PeggyCoin_eq)

end
